theory Spec2Isabelle
  imports Complex_Main
begin

section \<open>Python values and exceptions\<close>

text \<open>
  The module \<^verbatim>\<open>streamlit_authenticator/authenticate.py\<close> passes around the values
  that \<^verbatim>\<open>json.loads\<close> and \<^verbatim>\<open>Response.json()\<close> produce. They are dynamically typed:
  the same variable may hold a \<^verbatim>\<open>str\<close>, a \<^verbatim>\<open>dict\<close>, a \<^verbatim>\<open>list\<close>, a number,
  \<^verbatim>\<open>True\<close>/\<^verbatim>\<open>False\<close> or \<^verbatim>\<open>None\<close>, and the operations the code applies
  (subscript, \<^verbatim>\<open>in\<close>, \<^verbatim>\<open>.get\<close>, \<^verbatim>\<open>.split\<close>, \<^verbatim>\<open>dict(...)\<close>, \<^verbatim>\<open>list(...)\<close>,
  truth testing) raise different exceptions on different kinds of value.
\<close>

datatype pyfloat = Finite rat | NaN | Infinity bool

text \<open>
  A dictionary is the list of its items, in insertion order; the keys of a dictionary
  that comes from JSON are strings.
\<close>

datatype pyval =
    PNone
  | PBool bool
  | PInt int
  | PFloat pyfloat
  | PStr string
  | PList "pyval list"
  | PDict "(string \<times> pyval) list"

text \<open>
  Exceptions are values. \<open>JSONDecodeError\<close> and \<open>Base64Error\<close> (\<^verbatim>\<open>binascii.Error\<close>) are
  subclasses of \<^verbatim>\<open>ValueError\<close> in Python, \<open>ConnectionError\<close> stands for the transport
  exceptions of \<^verbatim>\<open>requests\<close>; none of them is a subclass of \<^verbatim>\<open>KeyError\<close> or
  \<^verbatim>\<open>TypeError\<close>. \<open>JWTError\<close> stands for \<^verbatim>\<open>jose.JWTError\<close> and its subclasses.
\<close>

datatype error =
    KeyError
  | TypeError
  | ValueError
  | IndexError
  | AttributeError
  | JSONDecodeError
  | Base64Error
  | ConnectionError
  | CognitoJWTException
  | JWTError

text \<open>The clause \<^verbatim>\<open>except (KeyError, TypeError)\<close>, used three times in the module.\<close>

definition key_or_type_error :: "error \<Rightarrow> bool" where
  "key_or_type_error e \<longleftrightarrow> e = KeyError \<or> e = TypeError"

text \<open>The clause \<^verbatim>\<open>except (cognitojwt.exceptions.CognitoJWTException, JWTError)\<close>.\<close>

definition jwt_error :: "error \<Rightarrow> bool" where
  "jwt_error e \<longleftrightarrow> e = CognitoJWTException \<or> e = JWTError"

subsection \<open>Built-in operations on values\<close>

text \<open>Truth testing, as in \<^verbatim>\<open>if access_token:\<close>.\<close>

fun truthy :: "pyval \<Rightarrow> bool" where
  "truthy PNone = False"
| "truthy (PBool b) = b"
| "truthy (PInt n) = (n \<noteq> 0)"
| "truthy (PFloat (Finite q)) = (q \<noteq> 0)"
| "truthy (PFloat NaN) = True"
| "truthy (PFloat (Infinity s)) = True"
| "truthy (PStr s) = (s \<noteq> [])"
| "truthy (PList xs) = (xs \<noteq> [])"
| "truthy (PDict kvs) = (kvs \<noteq> [])"

text \<open>
  \<^verbatim>\<open>v[key]\<close> with a string key: a dictionary looks the key up and raises
  \<^verbatim>\<open>KeyError\<close> when it is missing; every other kind of value raises \<^verbatim>\<open>TypeError\<close>
  (lists and strings want integer indices, the rest is not subscriptable).
\<close>

fun getitem :: "pyval \<Rightarrow> string \<Rightarrow> error + pyval" where
  "getitem (PDict kvs) k = (case map_of kvs k of None \<Rightarrow> Inl KeyError | Some v \<Rightarrow> Inr v)"
| "getitem v k = Inl TypeError"

text \<open>\<^verbatim>\<open>v.get(key)\<close>: only dictionaries have the method.\<close>

fun get_method :: "pyval \<Rightarrow> string \<Rightarrow> error + pyval" where
  "get_method (PDict kvs) k = (case map_of kvs k of None \<Rightarrow> Inr PNone | Some v \<Rightarrow> Inr v)"
| "get_method v k = Inl AttributeError"

text \<open>\<^verbatim>\<open>needle in haystack\<close> for two strings: the substring test.\<close>

fun starts_with :: "string \<Rightarrow> string \<Rightarrow> bool" where
  "starts_with [] ys = True"
| "starts_with (x # xs) [] = False"
| "starts_with (x # xs) (y # ys) = (x = y \<and> starts_with xs ys)"

fun substring :: "string \<Rightarrow> string \<Rightarrow> bool" where
  "substring xs [] = (xs = [])"
| "substring xs (y # ys) = (starts_with xs (y # ys) \<or> substring xs ys)"

text \<open>
  \<^verbatim>\<open>key in v\<close> for a string \<open>key\<close>: membership among the keys of a dictionary, among the
  elements of a list (a string equals only an equal string), the substring test on a
  string, and \<^verbatim>\<open>TypeError\<close> on a value that is not iterable.
\<close>

fun contains :: "pyval \<Rightarrow> string \<Rightarrow> error + bool" where
  "contains (PDict kvs) k = Inr (k \<in> set (map fst kvs))"
| "contains (PList xs) k = Inr (PStr k \<in> set xs)"
| "contains (PStr s) k = Inr (substring k s)"
| "contains v k = Inl TypeError"

text \<open>
  \<^verbatim>\<open>list(v)\<close>: a copy of a list, the characters of a string, the keys of a dictionary;
  \<^verbatim>\<open>TypeError\<close> on a value that is not iterable.
\<close>

fun py_list :: "pyval \<Rightarrow> error + pyval list" where
  "py_list (PList xs) = Inr xs"
| "py_list (PStr s) = Inr (map (\<lambda>c. PStr [c]) s)"
| "py_list (PDict kvs) = Inr (map (\<lambda>kv. PStr (fst kv)) kvs)"
| "py_list v = Inl TypeError"

text \<open>
  \<^verbatim>\<open>dict(v)\<close>. A dictionary is copied. Any other iterable is read as a sequence of
  key-value pairs, element by element: an element that is not iterable raises
  \<^verbatim>\<open>TypeError\<close>, an iterable element whose length is not 2 raises \<^verbatim>\<open>ValueError\<close>,
  and a key that is a list or a dictionary is unhashable, \<^verbatim>\<open>TypeError\<close>. The first
  offending element decides. The result may have keys that are not strings, so it
  is a list of pairs of values. A later pair of the sequence overrides an earlier
  one with the same key: the pairs of a sequence are kept latest first, so that the
  first match of a lookup is the pair that counts.
\<close>

fun hashable :: "pyval \<Rightarrow> bool" where
  "hashable (PList xs) = False"
| "hashable (PDict kvs) = False"
| "hashable v = True"

fun pair_of :: "pyval \<Rightarrow> error + (pyval \<times> pyval)" where
  "pair_of (PList xs) =
     (case xs of
        [k, v] \<Rightarrow> if hashable k then Inr (k, v) else Inl TypeError
      | _ \<Rightarrow> Inl ValueError)"
| "pair_of (PStr s) =
     (case s of [a, b] \<Rightarrow> Inr (PStr [a], PStr [b]) | _ \<Rightarrow> Inl ValueError)"
| "pair_of (PDict kvs) =
     (case kvs of [p, q] \<Rightarrow> Inr (PStr (fst p), PStr (fst q)) | _ \<Rightarrow> Inl ValueError)"
| "pair_of v = Inl TypeError"

fun pairs_of :: "pyval list \<Rightarrow> error + (pyval \<times> pyval) list" where
  "pairs_of [] = Inr []"
| "pairs_of (x # xs) =
     (case pair_of x of
        Inl e \<Rightarrow> Inl e
      | Inr p \<Rightarrow> (case pairs_of xs of Inl e \<Rightarrow> Inl e | Inr ps \<Rightarrow> Inr (p # ps)))"

fun py_dict :: "pyval \<Rightarrow> error + (pyval \<times> pyval) list" where
  "py_dict (PDict kvs) = Inr (map (\<lambda>kv. (PStr (fst kv), snd kv)) kvs)"
| "py_dict (PList xs) = map_sum id rev (pairs_of xs)"
| "py_dict (PStr s) = map_sum id rev (pairs_of (map (\<lambda>c. PStr [c]) s))"
| "py_dict v = Inl TypeError"

text \<open>Lookup of a string key in the result of \<^verbatim>\<open>dict(v)\<close>.\<close>

definition dict_getitem :: "(pyval \<times> pyval) list \<Rightarrow> string \<Rightarrow> error + pyval" where
  "dict_getitem items k =
     (case map_of items (PStr k) of None \<Rightarrow> Inl KeyError | Some v \<Rightarrow> Inr v)"

text \<open>\<^verbatim>\<open>s.split(c)\<close> for a one-character separator.\<close>

fun split_char :: "char \<Rightarrow> string \<Rightarrow> string list" where
  "split_char c [] = [[]]"
| "split_char c (x # xs) =
     (if x = c then [] # split_char c xs
      else (case split_char c xs of [] \<Rightarrow> [[x]] | w # ws \<Rightarrow> (x # w) # ws))"

section \<open>The session store\<close>

text \<open>
  Modelled from the spec: the class \<^verbatim>\<open>EncryptedCookieManager\<close> of the module
  \<^verbatim>\<open>encrypted_cookie_manager\<close>, which the authenticator imports and which is not
  among the sources. The specification (4.1) asks of the store: \<open>has(key)\<close>,
  \<open>get(key)\<close> giving a string or absent, \<open>set(key, value)\<close>, and \<open>save()\<close>, which
  flushes all pending writes. The store keeps opaque strings. \<open>cookies\<close> is the
  content the request works on, \<open>persisted\<close> what the last flush has sent to the
  client.
\<close>

record store =
  cookies :: "string \<rightharpoonup> string"
  persisted :: "string \<rightharpoonup> string"

text \<open>Modelled from the spec: \<open>has(key)\<close>, written \<^verbatim>\<open>key in cookie_manager\<close>.\<close>

definition store_has :: "store \<Rightarrow> string \<Rightarrow> bool" where
  "store_has s k \<longleftrightarrow> cookies s k \<noteq> None"

text \<open>
  Modelled from the spec: \<open>get(key)\<close>, written \<^verbatim>\<open>cookie_manager.get(key)\<close>; absent is
  \<^verbatim>\<open>None\<close>.
\<close>

definition store_get :: "store \<Rightarrow> string \<Rightarrow> string option" where
  "store_get s k = cookies s k"

text \<open>
  Modelled from the spec: the read \<^verbatim>\<open>cookie_manager[key]\<close> of the mapping protocol,
  which raises \<^verbatim>\<open>KeyError\<close> when the key is absent.
\<close>

definition store_getitem :: "store \<Rightarrow> string \<Rightarrow> error + string" where
  "store_getitem s k = (case cookies s k of None \<Rightarrow> Inl KeyError | Some v \<Rightarrow> Inr v)"

text \<open>Modelled from the spec: \<open>set(key, value)\<close>, written \<^verbatim>\<open>cookie_manager[key] = value\<close>.\<close>

definition store_set :: "store \<Rightarrow> string \<Rightarrow> string \<Rightarrow> store" where
  "store_set s k v = s\<lparr>cookies := (cookies s)(k \<mapsto> v)\<rparr>"

text \<open>Modelled from the spec: \<open>save()\<close>, the flush of all pending writes.\<close>

definition store_save :: "store \<Rightarrow> store" where
  "store_save s = s\<lparr>persisted := cookies s\<rparr>"

section \<open>The world outside the module\<close>

text \<open>
  What \<^verbatim>\<open>Response.json()\<close> gives for a response of the provider: the decoded body,
  or the exception it raises on a body that is not JSON.
\<close>

record response =
  status_code :: nat
  json :: "error + pyval"

text \<open>
  Everything the module calls and does not define: the query parameters of the
  request (\<^verbatim>\<open>st.experimental_get_query_params()\<close>, a dictionary from names to lists of
  values), the two HTTP calls of \<^verbatim>\<open>requests\<close> (URL, headers, form body), the
  \<^verbatim>\<open>base64\<close> and \<^verbatim>\<open>json\<close> functions of the standard library, string formatting of
  a value, and \<^verbatim>\<open>cognitojwt.decode\<close> (token, region, pool, client). The theorems
  hold for every behaviour of these.
\<close>

record env =
  query_params :: "string \<rightharpoonup> string list"
  http_post :: "string \<Rightarrow> (string \<times> string) list \<Rightarrow> (string \<times> string) list \<Rightarrow> error + response"
  http_get :: "string \<Rightarrow> (string \<times> string) list \<Rightarrow> error + response"
  b64encode :: "string \<Rightarrow> string"
  urlsafe_b64decode :: "string \<Rightarrow> error + string"
  json_loads :: "string \<Rightarrow> error + pyval"
  json_dumps :: "pyval \<Rightarrow> string"
  format_value :: "pyval \<Rightarrow> string"
  cognitojwt_decode :: "pyval \<Rightarrow> string \<Rightarrow> string \<Rightarrow> string \<Rightarrow> error + pyval"

text \<open>
  \<^verbatim>\<open>json.loads(x)\<close> where \<open>x\<close> may be \<^verbatim>\<open>None\<close> (the result of \<^verbatim>\<open>.get\<close> on a
  missing key): \<^verbatim>\<open>json.loads(None)\<close> raises \<^verbatim>\<open>TypeError\<close>.
\<close>

definition json_loads_opt :: "env \<Rightarrow> string option \<Rightarrow> error + pyval" where
  "json_loads_opt E x = (case x of None \<Rightarrow> Inl TypeError | Some s \<Rightarrow> json_loads E s)"

section \<open>The authenticator\<close>

record authenticator =
  cognito_domain :: string
  client_id :: string
  client_secret :: string
  app_uri :: string
  pool_id :: string
  region :: string

subsection \<open>\<^verbatim>\<open>initialise_st_state_vars\<close>\<close>

definition initialise_st_state_vars :: "env \<Rightarrow> store \<Rightarrow> store" where
  "initialise_st_state_vars E s =
     (let logout = query_params E ''logout'';
          s1 = (if \<not> store_has s ''tokens'' \<or> logout \<noteq> None
                then store_set s ''tokens'' (json_dumps E (PDict []))
                else s);
          s2 = (if \<not> store_has s1 ''user_groups'' \<or> logout \<noteq> None
                then store_set s1 ''user_groups'' (json_dumps E (PList []))
                else s1)
      in store_save s2)"

subsection \<open>\<^verbatim>\<open>get_auth_code\<close>\<close>

text \<open>
  \<^verbatim>\<open>dict(auth_query_params)["code"][0]\<close>: a missing key raises \<^verbatim>\<open>KeyError\<close>, which
  the function catches; the first element of an empty list would raise
  \<^verbatim>\<open>IndexError\<close>, which it does not catch.
\<close>

definition get_auth_code :: "env \<Rightarrow> error + string" where
  "get_auth_code E =
     (let auth_query_params = query_params E;
          r = (case auth_query_params ''code'' of
                 None \<Rightarrow> Inl KeyError
               | Some vs \<Rightarrow> (case vs of [] \<Rightarrow> Inl IndexError | v # _ \<Rightarrow> Inr v))
      in case r of
           Inr auth_code \<Rightarrow> Inr auth_code
         | Inl e \<Rightarrow> if key_or_type_error e then Inr '''' else Inl e)"

subsection \<open>\<^verbatim>\<open>get_user_tokens\<close>\<close>

text \<open>
  The request is built and posted (\<open>token_request\<close>) before the \<^verbatim>\<open>try\<close>; both
  readings of the body (\<open>response_tokens\<close>) are inside it. The status of the
  response is not looked at.
\<close>

definition response_tokens :: "response \<Rightarrow> error + (pyval \<times> pyval)" where
  "response_tokens token_response =
     (case json token_response of
        Inl e \<Rightarrow> Inl e
      | Inr j \<Rightarrow>
          (case getitem j ''access_token'' of
             Inl e \<Rightarrow> Inl e
           | Inr access_token \<Rightarrow>
               (case getitem j ''id_token'' of
                  Inl e \<Rightarrow> Inl e
                | Inr id_token \<Rightarrow> Inr (access_token, id_token))))"

definition token_request :: "env \<Rightarrow> authenticator \<Rightarrow> string \<Rightarrow> error + response" where
  "token_request E self auth_code =
     (let token_url = cognito_domain self @ ''/oauth2/token'';
          client_secret_string = client_id self @ '':'' @ client_secret self;
          client_secret_encoded = b64encode E client_secret_string;
          headers = [(''Content-Type'', ''application/x-www-form-urlencoded''),
                     (''Authorization'', ''Basic '' @ client_secret_encoded)];
          body = [(''grant_type'', ''authorization_code''),
                  (''client_id'', client_id self),
                  (''code'', auth_code),
                  (''redirect_uri'', app_uri self)]
      in http_post E token_url headers body)"

definition get_user_tokens :: "env \<Rightarrow> authenticator \<Rightarrow> string \<Rightarrow> error + (pyval \<times> pyval)" where
  "get_user_tokens E self auth_code =
     (case token_request E self auth_code of
        Inl e \<Rightarrow> Inl e
      | Inr token_response \<Rightarrow>
          (case response_tokens token_response of
             Inr p \<Rightarrow> Inr p
           | Inl e \<Rightarrow> if key_or_type_error e then Inr (PStr '''', PStr '''') else Inl e))"

subsection \<open>\<^verbatim>\<open>get_user_info\<close>\<close>

definition get_user_info :: "env \<Rightarrow> authenticator \<Rightarrow> store \<Rightarrow> error + pyval" where
  "get_user_info E self s =
     (case store_getitem s ''tokens'' of
        Inl e \<Rightarrow> Inl e
      | Inr t \<Rightarrow>
          (case json_loads E t of
             Inl e \<Rightarrow> Inl e
           | Inr tokens \<Rightarrow>
               (case get_method tokens ''access_token'' of
                  Inl e \<Rightarrow> Inl e
                | Inr access_token \<Rightarrow>
                    if truthy access_token then
                      (let userinfo_url = cognito_domain self @ ''/oauth2/userInfo'';
                           headers = [(''Content-Type'', ''application/json;charset=UTF-8''),
                                      (''Authorization'', ''Bearer '' @ format_value E access_token)]
                       in case http_get E userinfo_url headers of
                            Inl e \<Rightarrow> Inl e
                          | Inr userinfo_response \<Rightarrow> json userinfo_response)
                    else Inr PNone)))"

subsection \<open>\<^verbatim>\<open>pad_base64\<close>\<close>

definition pad_base64 :: "string \<Rightarrow> string" where
  "pad_base64 data =
     (let missing_padding = length data mod 4
      in if missing_padding \<noteq> 0
         then data @ replicate (4 - missing_padding) (CHR ''='')
         else data)"

subsection \<open>\<^verbatim>\<open>get_user_groups\<close>\<close>

text \<open>
  Only the conversion \<^verbatim>\<open>list(dict(payload_dict)["cognito:groups"])\<close> is inside the
  \<^verbatim>\<open>try\<close>; the split into three segments, the decoding and \<^verbatim>\<open>json.loads\<close> are
  before it. A value that is not a string has no \<^verbatim>\<open>split\<close>.
\<close>

definition groups_of_payload :: "pyval \<Rightarrow> error + pyval list" where
  "groups_of_payload payload_dict =
     (case py_dict payload_dict of
        Inl e \<Rightarrow> Inl e
      | Inr items \<Rightarrow>
          (case dict_getitem items ''cognito:groups'' of
             Inl e \<Rightarrow> Inl e
           | Inr g \<Rightarrow> py_list g))"

definition get_user_groups :: "env \<Rightarrow> pyval \<Rightarrow> error + pyval list" where
  "get_user_groups E id_token =
     (if id_token \<noteq> PStr '''' then
        (case id_token of
           PStr t \<Rightarrow>
             (case split_char (CHR ''.'') t of
                [header, payload, signature] \<Rightarrow>
                  (case urlsafe_b64decode E (pad_base64 payload) of
                     Inl e \<Rightarrow> Inl e
                   | Inr printable_payload \<Rightarrow>
                       (case json_loads E printable_payload of
                          Inl e \<Rightarrow> Inl e
                        | Inr payload_dict \<Rightarrow>
                            (case groups_of_payload payload_dict of
                               Inr user_groups \<Rightarrow> Inr user_groups
                             | Inl e \<Rightarrow> if key_or_type_error e then Inr [] else Inl e)))
              | _ \<Rightarrow> Inl ValueError)
         | _ \<Rightarrow> Inl AttributeError)
      else Inr [])"

subsection \<open>\<^verbatim>\<open>activate\<close>\<close>

text \<open>
  The store is returned also when a later step raises: what has been written and
  flushed before stays.
\<close>

definition activate :: "env \<Rightarrow> authenticator \<Rightarrow> store \<Rightarrow> store \<times> (error + pyval)" where
  "activate E self s =
     (let s1 = initialise_st_state_vars E s
      in case get_auth_code E of
           Inl e \<Rightarrow> (s1, Inl e)
         | Inr auth_code \<Rightarrow>
             (case get_user_tokens E self auth_code of
                Inl e \<Rightarrow> (s1, Inl e)
              | Inr (access_token, id_token) \<Rightarrow>
                  (case get_user_groups E id_token of
                     Inl e \<Rightarrow> (s1, Inl e)
                   | Inr user_groups \<Rightarrow>
                       (let s2 = (if access_token \<noteq> PStr '''' then
                                    store_save
                                      (store_set
                                        (store_set s1 ''tokens''
                                          (json_dumps E (PDict [(''access_token'', access_token),
                                                                (''id_token'', id_token)])))
                                        ''user_groups'' (json_dumps E (PList user_groups)))
                                  else s1)
                        in (s2, get_user_info E self s2)))))"

subsection \<open>\<^verbatim>\<open>verify_token\<close>\<close>

definition verify_token :: "env \<Rightarrow> authenticator \<Rightarrow> pyval \<Rightarrow> error + bool" where
  "verify_token E self id_token =
     (case cognitojwt_decode E id_token (region self) (pool_id self) (client_id self) of
        Inr claims \<Rightarrow> Inr True
      | Inl e \<Rightarrow> if jwt_error e then Inr False else Inl e)"

subsection \<open>\<^verbatim>\<open>check_access\<close>\<close>

text \<open>
  \<^verbatim>\<open>json.loads\<close> is applied to the result of \<^verbatim>\<open>.get("tokens")\<close> before the test for
  \<^verbatim>\<open>None\<close>. The conjunction is evaluated from the left and stops at the first false
  operand. The function returns a boolean, or nothing (\<open>None\<close>) when the test fails.
\<close>

definition check_access :: "env \<Rightarrow> authenticator \<Rightarrow> store \<Rightarrow> error + bool option" where
  "check_access E self s =
     (case json_loads_opt E (store_get s ''tokens'') of
        Inl e \<Rightarrow> Inl e
      | Inr tokens \<Rightarrow>
          if tokens \<noteq> PNone then
            (case contains tokens ''access_token'' of
               Inl e \<Rightarrow> Inl e
             | Inr has_access \<Rightarrow>
                 if has_access then
                   (case contains tokens ''id_token'' of
                      Inl e \<Rightarrow> Inl e
                    | Inr has_id \<Rightarrow>
                        if has_id then
                          (case getitem tokens ''id_token'' of
                             Inl e \<Rightarrow> Inl e
                           | Inr id_token \<Rightarrow>
                               (case verify_token E self id_token of
                                  Inl e \<Rightarrow> Inl e
                                | Inr b \<Rightarrow> Inr (Some b)))
                        else Inr None)
                 else Inr None)
          else Inr None)"

subsection \<open>\<^verbatim>\<open>check_role\<close>\<close>

definition check_role :: "env \<Rightarrow> store \<Rightarrow> string \<Rightarrow> error + bool" where
  "check_role E s role =
     (let cookie_user_groups = store_get s ''user_groups''
      in case cookie_user_groups of
           Some g \<Rightarrow>
             (case json_loads E g of
                Inl e \<Rightarrow> Inl e
              | Inr groups \<Rightarrow> contains groups role)
         | None \<Rightarrow> Inr False)"

text \<open>
  The values that are neither a string nor a container: \<open>None\<close>, booleans and
  numbers. \<^verbatim>\<open>dict(v)\<close> raises \<^verbatim>\<open>TypeError\<close> on them.
\<close>

definition scalar :: "pyval \<Rightarrow> bool" where
  "scalar v = (case v of PNone \<Rightarrow> True | PBool b \<Rightarrow> True | PInt n \<Rightarrow> True | PFloat f \<Rightarrow> True | _ \<Rightarrow> False)"

section \<open>A concrete request, provider and library\<close>

text \<open>
  The theorems below are stated for every environment. Where one of them is applied
  to a concrete case, the case is built from the following data. \<open>example_json\<close>
  lists JSON texts with the values they denote: \<^verbatim>\<open>json.loads\<close> maps each text to
  its value and \<^verbatim>\<open>json.dumps\<close> prints each value as its text. \<open>example_base64\<close>
  lists padded base64url texts with what they decode to. Any other text is taken
  as one that does not decode; the only such text that occurs is \<^verbatim>\<open>x\<close>, which is not
  JSON.
\<close>

definition example_json :: "(string \<times> pyval) list" where
  \<open>example_json =
     [(''{}'', PDict []),
      (''[]'', PList []),
      (''1'', PInt 1),
      (''["a", "b"]'', PList [PStr ''a'', PStr ''b'']),
      (''["readers"]'', PList [PStr ''readers'']),
      (''{"cognito:groups": ["a", "b"]}'',
         PDict [(''cognito:groups'', PList [PStr ''a'', PStr ''b''])]),
      (''{"access_token": "A"}'', PDict [(''access_token'', PStr ''A'')]),
      (''{"access_token": "A", "id_token": ""}'',
         PDict [(''access_token'', PStr ''A''), (''id_token'', PStr '''')]),
      (''{"access_token": "A", "id_token": "h.e30.s"}'',
         PDict [(''access_token'', PStr ''A''), (''id_token'', PStr ''h.e30.s'')])]\<close>

definition example_base64 :: "(string \<times> string) list" where
  \<open>example_base64 =
     [(''e30='', ''{}''),
      (''eA=='', ''x''),
      (''MQ=='', ''1''),
      (''eyJjb2duaXRvOmdyb3VwcyI6IFsiYSIsICJiIl19'', ''{"cognito:groups": ["a", "b"]}'')]\<close>

definition example_loads :: "string \<Rightarrow> error + pyval" where
  "example_loads t = (case map_of example_json t of None \<Rightarrow> Inl JSONDecodeError | Some v \<Rightarrow> Inr v)"

definition example_dumps :: "pyval \<Rightarrow> string" where
  "example_dumps v =
     (case map_of (map (\<lambda>tv. (snd tv, fst tv)) example_json) v of None \<Rightarrow> ''null'' | Some t \<Rightarrow> t)"

definition example_b64decode :: "string \<Rightarrow> error + string" where
  "example_b64decode t = (case map_of example_base64 t of None \<Rightarrow> Inl Base64Error | Some b \<Rightarrow> Inr b)"

definition example_format :: "pyval \<Rightarrow> string" where
  "example_format v = (case v of PStr s \<Rightarrow> s | _ \<Rightarrow> ''None'')"

definition example_self :: authenticator where
  "example_self =
     \<lparr>cognito_domain = ''https://auth.example.com'', client_id = ''client'',
      client_secret = ''secret'', app_uri = ''https://app.example.com'',
      pool_id = ''pool'', region = ''eu-west-1''\<rparr>"

text \<open>
  A provider that rejects the authorization code (status 400 and a JSON error
  object) and answers the profile request, and a verification library that finds
  every token invalid. The request has no parameters.
\<close>

definition rejected :: response where
  "rejected = \<lparr>status_code = 400, json = Inr (PDict [(''error'', PStr ''invalid_grant'')])\<rparr>"

definition profile :: pyval where
  "profile = PDict [(''email'', PStr ''user@example.com'')]"

definition example_env :: env where
  "example_env =
     \<lparr>query_params = Map.empty,
      http_post = (\<lambda>url headers body. Inr rejected),
      http_get = (\<lambda>url headers. Inr \<lparr>status_code = 200, json = Inr profile\<rparr>),
      b64encode = (\<lambda>s. ''Y2xpZW50OnNlY3JldA==''),
      urlsafe_b64decode = example_b64decode,
      json_loads = example_loads,
      json_dumps = example_dumps,
      format_value = example_format,
      cognitojwt_decode = (\<lambda>token region pool client. Inl CognitoJWTException)\<rparr>"

text \<open>The same with another outcome of the POST to the token endpoint.\<close>

definition env_with_post :: "error + response \<Rightarrow> env" where
  "env_with_post r = example_env\<lparr>http_post := (\<lambda>url headers body. r)\<rparr>"

text \<open>A response of status \<open>st\<close> whose body is the JSON value \<open>v\<close>.\<close>

definition json_response :: "nat \<Rightarrow> pyval \<Rightarrow> response" where
  "json_response st v = \<lparr>status_code = st, json = Inr v\<rparr>"

text \<open>A gateway error page: status 502 and a body that is not JSON.\<close>

definition bad_gateway :: response where
  "bad_gateway = \<lparr>status_code = 502, json = Inl JSONDecodeError\<rparr>"

text \<open>The store of a client that has no cookie yet.\<close>

definition empty_store :: store where
  "empty_store = \<lparr>cookies = Map.empty, persisted = Map.empty\<rparr>"

text \<open>The same environment for a request with the parameters \<open>q\<close>.\<close>

definition with_query :: "(string \<rightharpoonup> string list) \<Rightarrow> env \<Rightarrow> env" where
  "with_query q E = E\<lparr>query_params := q\<rparr>"

text \<open>The store of a client that has logged in before.\<close>

definition logged_in_store :: store where
  \<open>logged_in_store =
     \<lparr>cookies = [''tokens'' \<mapsto> ''{"access_token": "A", "id_token": "h.e30.s"}'',
                 ''user_groups'' \<mapsto> ''["readers"]''],
      persisted = [''tokens'' \<mapsto> ''{"access_token": "A", "id_token": "h.e30.s"}'',
                   ''user_groups'' \<mapsto> ''["readers"]'']\<rparr>\<close>

text \<open>The same environment with another outcome of \<^verbatim>\<open>cognitojwt.decode\<close>.\<close>

definition env_with_decode :: "error + pyval \<Rightarrow> env" where
  "env_with_decode r = example_env\<lparr>cognitojwt_decode := (\<lambda>token region pool client. r)\<rparr>"

text \<open>A store whose tokens object has no \<open>id_token\<close>, and whose groups list is empty.\<close>

definition partial_store :: store where
  \<open>partial_store =
     \<lparr>cookies = [''tokens'' \<mapsto> ''{"access_token": "A"}'', ''user_groups'' \<mapsto> ''[]''],
      persisted = [''tokens'' \<mapsto> ''{"access_token": "A"}'', ''user_groups'' \<mapsto> ''[]'']\<rparr>\<close>

section \<open>Padding\<close>

lemma pad_base64_length: "length (pad_base64 data) mod 4 = 0"
proof (cases "length data mod 4 = 0")
  case True
  then show ?thesis by (simp add: pad_base64_def)
next
  case False
  have "(length data + (4 - length data mod 4)) mod 4 = 0"
    by presburger
  with False show ?thesis by (simp add: pad_base64_def)
qed

text \<open>
  C9. For every input string the output of \<open>pad_base64\<close> has a length that is a
  multiple of 4, and \<open>pad_base64\<close> is idempotent: padding twice gives what padding
  once gives.
\<close>

theorem pad_base64_multiple_of_4_idempotent:
  "4 dvd length (pad_base64 data) \<and> pad_base64 (pad_base64 data) = pad_base64 data"
proof
  show "4 dvd length (pad_base64 data)"
    using pad_base64_length [of data] by presburger
next
  have "pad_base64 (pad_base64 data) =
          (if length (pad_base64 data) mod 4 \<noteq> 0
           then pad_base64 data @ replicate (4 - length (pad_base64 data) mod 4) (CHR ''='')
           else pad_base64 data)"
    unfolding pad_base64_def [of "pad_base64 data"] by (simp add: Let_def)
  then show "pad_base64 (pad_base64 data) = pad_base64 data"
    by (simp add: pad_base64_length)
qed


section \<open>Facts about the concrete case\<close>

lemma token_request_example [simp]: "token_request (env_with_post r) self code = r"
  by (simp add: token_request_def env_with_post_def example_env_def Let_def)

lemma example_dumps_empty [simp]:
  "example_dumps (PDict []) = ''{}''" "example_dumps (PList []) = ''[]''"
  by (simp_all add: example_dumps_def example_json_def)

lemma example_loads_simps [simp]:
  \<open>example_loads ''{}'' = Inr (PDict [])\<close>
  \<open>example_loads ''[]'' = Inr (PList [])\<close>
  \<open>example_loads ''1'' = Inr (PInt 1)\<close>
  \<open>example_loads ''x'' = Inl JSONDecodeError\<close>
  \<open>example_loads ''["readers"]'' = Inr (PList [PStr ''readers''])\<close>
  \<open>example_loads ''{"cognito:groups": ["a", "b"]}'' =
     Inr (PDict [(''cognito:groups'', PList [PStr ''a'', PStr ''b''])])\<close>
  \<open>example_loads ''{"access_token": "A"}'' = Inr (PDict [(''access_token'', PStr ''A'')])\<close>
  \<open>example_loads ''{"access_token": "A", "id_token": ""}'' =
     Inr (PDict [(''access_token'', PStr ''A''), (''id_token'', PStr '''')])\<close>
  \<open>example_loads ''{"access_token": "A", "id_token": "h.e30.s"}'' =
     Inr (PDict [(''access_token'', PStr ''A''), (''id_token'', PStr ''h.e30.s'')])\<close>
  by (simp_all add: example_loads_def example_json_def)

lemma example_env_simps [simp]:
  "json_loads example_env = example_loads"
  "json_dumps example_env = example_dumps"
  "urlsafe_b64decode example_env = example_b64decode"
  "query_params example_env = Map.empty"
  by (simp_all add: example_env_def)

lemma example_b64decode_simps [simp]:
  \<open>example_b64decode ''e30='' = Inr ''{}''\<close>
  \<open>example_b64decode ''eA=='' = Inr ''x''\<close>
  \<open>example_b64decode ''MQ=='' = Inr ''1''\<close>
  \<open>example_b64decode ''a==='' = Inl Base64Error\<close>
  \<open>example_b64decode ''eyJjb2duaXRvOmdyb3VwcyI6IFsiYSIsICJiIl19'' = Inr ''{"cognito:groups": ["a", "b"]}''\<close>
  by (simp_all add: example_b64decode_def example_base64_def)

lemma pad_examples [simp]:
  "pad_base64 ''e30'' = ''e30=''" "pad_base64 ''eA'' = ''eA==''" "pad_base64 ''MQ'' = ''MQ==''"
  "pad_base64 ''a'' = ''a===''"
  "pad_base64 ''eyJjb2duaXRvOmdyb3VwcyI6IFsiYSIsICJiIl19'' = ''eyJjb2duaXRvOmdyb3VwcyI6IFsiYSIsICJiIl19''"
  by code_simp+

lemma split_examples:
  "split_char (CHR ''.'') ''h.eA.s'' = [''h'', ''eA'', ''s'']"
  "split_char (CHR ''.'') ''h.e30.s'' = [''h'', ''e30'', ''s'']"
  "split_char (CHR ''.'') ''h.MQ.s'' = [''h'', ''MQ'', ''s'']"
  "split_char (CHR ''.'') ''h.a.s'' = [''h'', ''a'', ''s'']"
  "split_char (CHR ''.'') ''abc'' = [''abc'']"
  "split_char (CHR ''.'') ''h.eyJjb2duaXRvOmdyb3VwcyI6IFsiYSIsICJiIl19.s''
      = [''h'', ''eyJjb2duaXRvOmdyb3VwcyI6IFsiYSIsICJiIl19'', ''s'']"
  by code_simp+

section \<open>Initialisation of the session\<close>

lemma initialise_persisted:
  "persisted (initialise_st_state_vars E s) = cookies (initialise_st_state_vars E s)"
  by (simp add: initialise_st_state_vars_def store_save_def Let_def)

lemma initialise_tokens:
  "cookies (initialise_st_state_vars E s) ''tokens'' =
     (if \<not> store_has s ''tokens'' \<or> query_params E ''logout'' \<noteq> None
      then Some (json_dumps E (PDict [])) else cookies s ''tokens'')"
  by (simp add: initialise_st_state_vars_def store_save_def store_set_def store_has_def Let_def)

lemma initialise_user_groups:
  "cookies (initialise_st_state_vars E s) ''user_groups'' =
     (if \<not> store_has s ''user_groups'' \<or> query_params E ''logout'' \<noteq> None
      then Some (json_dumps E (PList [])) else cookies s ''user_groups'')"
  by (simp add: initialise_st_state_vars_def store_save_def store_set_def store_has_def Let_def)

lemma initialise_other:
  "k \<noteq> ''tokens'' \<Longrightarrow> k \<noteq> ''user_groups'' \<Longrightarrow>
   cookies (initialise_st_state_vars E s) k = cookies s k"
  by (simp add: initialise_st_state_vars_def store_save_def store_set_def store_has_def Let_def)

text \<open>
  C8. For every prior state of the store: \<open>initialise_st_state_vars\<close> always ends
  with a flush; it writes the empty tokens object when the \<open>tokens\<close> key is absent or
  the request carries \<open>logout\<close>, and the empty groups list when the \<open>user_groups\<close>
  key is absent or the request carries \<open>logout\<close>. So when the session is absent
  (neither key is in the store) or the request carries the logout signal, the store
  holds the empty tokens object and the empty groups list afterwards, whatever it
  held before, and the other cookies are as they were.
\<close>

theorem initialise_st_state_vars_resets:
  "persisted (initialise_st_state_vars E s) = cookies (initialise_st_state_vars E s)
 \<and> (\<not> store_has s ''tokens'' \<or> query_params E ''logout'' \<noteq> None \<longrightarrow>
      cookies (initialise_st_state_vars E s) ''tokens'' = Some (json_dumps E (PDict [])))
 \<and> (\<not> store_has s ''user_groups'' \<or> query_params E ''logout'' \<noteq> None \<longrightarrow>
      cookies (initialise_st_state_vars E s) ''user_groups'' = Some (json_dumps E (PList [])))
 \<and> ((\<not> store_has s ''tokens'' \<and> \<not> store_has s ''user_groups'') \<or> query_params E ''logout'' \<noteq> None \<longrightarrow>
      cookies (initialise_st_state_vars E s) =
        (cookies s)(''tokens'' \<mapsto> json_dumps E (PDict []), ''user_groups'' \<mapsto> json_dumps E (PList [])))"
proof (intro conjI impI)
  show "persisted (initialise_st_state_vars E s) = cookies (initialise_st_state_vars E s)"
    by (rule initialise_persisted)
next
  assume "\<not> store_has s ''tokens'' \<or> query_params E ''logout'' \<noteq> None"
  then show "cookies (initialise_st_state_vars E s) ''tokens'' = Some (json_dumps E (PDict []))"
    by (simp add: initialise_tokens)
next
  assume "\<not> store_has s ''user_groups'' \<or> query_params E ''logout'' \<noteq> None"
  then show "cookies (initialise_st_state_vars E s) ''user_groups'' = Some (json_dumps E (PList []))"
    by (simp add: initialise_user_groups)
next
  assume a: "(\<not> store_has s ''tokens'' \<and> \<not> store_has s ''user_groups'') \<or> query_params E ''logout'' \<noteq> None"
  show "cookies (initialise_st_state_vars E s) =
        (cookies s)(''tokens'' \<mapsto> json_dumps E (PDict []), ''user_groups'' \<mapsto> json_dumps E (PList []))"
  proof
    fix k
    show "cookies (initialise_st_state_vars E s) k =
        ((cookies s)(''tokens'' \<mapsto> json_dumps E (PDict []), ''user_groups'' \<mapsto> json_dumps E (PList []))) k"
      using a initialise_tokens [of E s] initialise_user_groups [of E s] initialise_other [of k E s]
      by (cases "k = ''tokens''"; cases "k = ''user_groups''") auto
  qed
qed

text \<open>
  The first visit of a client without cookies, and a logout request of a client that
  was logged in: both end with the empty session, flushed.
\<close>

theorem initialise_st_state_vars_resets_witness:
  \<open>\<not> store_has empty_store ''tokens'' \<and> \<not> store_has empty_store ''user_groups''
 \<and> cookies (initialise_st_state_vars example_env empty_store) = [''tokens'' \<mapsto> ''{}'', ''user_groups'' \<mapsto> ''[]'']
 \<and> persisted (initialise_st_state_vars example_env empty_store) = [''tokens'' \<mapsto> ''{}'', ''user_groups'' \<mapsto> ''[]'']
 \<and> store_has logged_in_store ''tokens'' \<and> store_has logged_in_store ''user_groups''
 \<and> query_params (with_query [''logout'' \<mapsto> [''true'']] example_env) ''logout'' = Some [''true'']
 \<and> cookies (initialise_st_state_vars (with_query [''logout'' \<mapsto> [''true'']] example_env) logged_in_store)
      = [''tokens'' \<mapsto> ''{}'', ''user_groups'' \<mapsto> ''[]'']
 \<and> persisted (initialise_st_state_vars (with_query [''logout'' \<mapsto> [''true'']] example_env) logged_in_store)
      = [''tokens'' \<mapsto> ''{}'', ''user_groups'' \<mapsto> ''[]'']\<close>
  using initialise_st_state_vars_resets [of example_env empty_store]
        initialise_st_state_vars_resets [of "with_query [''logout'' \<mapsto> [''true'']] example_env" logged_in_store]
  by (simp add: store_has_def empty_store_def logged_in_store_def with_query_def example_env_def)

section \<open>The token exchange\<close>

lemma response_tokens_dict:
  "json r = Inr (PDict kvs) \<Longrightarrow>
   response_tokens r =
     (case map_of kvs ''access_token'' of
        None \<Rightarrow> Inl KeyError
      | Some a \<Rightarrow> (case map_of kvs ''id_token'' of None \<Rightarrow> Inl KeyError | Some i \<Rightarrow> Inr (a, i)))"
  by (simp add: response_tokens_def split: option.splits)

lemma response_tokens_not_dict:
  "json r = Inr j \<Longrightarrow> \<forall>kvs. j \<noteq> PDict kvs \<Longrightarrow> response_tokens r = Inl TypeError"
  by (cases j) (simp_all add: response_tokens_def)

lemma response_tokens_error:
  "json r = Inl e \<Longrightarrow> response_tokens r = Inl e"
  by (simp add: response_tokens_def)

text \<open>
  C1, as the claim states it, fails: the POST is outside the \<^verbatim>\<open>try\<close>, so a
  transport failure is raised to the caller of \<open>get_user_tokens\<close> and not turned into
  the empty pair.
\<close>

theorem get_user_tokens_transport_failure:
  "token_request (env_with_post (Inl ConnectionError)) example_self ''code'' = Inl ConnectionError
 \<and> get_user_tokens (env_with_post (Inl ConnectionError)) example_self ''code'' = Inl ConnectionError"
  by (simp add: get_user_tokens_def)

text \<open>
  C1, amended. For every authorization code, \<open>get_user_tokens\<close> returns the empty
  pair whenever the provider has answered and the body of the answer is JSON but has
  no \<open>access_token\<close> or no \<open>id_token\<close>, or is not an object at all; the status of the
  answer plays no part, and a body with both keys gives their values whatever the
  status. A transport failure, and a body that is not JSON, are raised to the caller.
\<close>

theorem get_user_tokens_outcomes:
  "(token_request E self code = Inl e \<longrightarrow> get_user_tokens E self code = Inl e)
 \<and> (token_request E self code = Inr r \<and> json r = Inl e \<and> \<not> key_or_type_error e
      \<longrightarrow> get_user_tokens E self code = Inl e)
 \<and> (token_request E self code = Inr r \<and> json r = Inr (PDict kvs)
      \<and> (map_of kvs ''access_token'' = None \<or> map_of kvs ''id_token'' = None)
      \<longrightarrow> get_user_tokens E self code = Inr (PStr '''', PStr ''''))
 \<and> (token_request E self code = Inr r \<and> json r = Inr j \<and> (\<forall>kvs. j \<noteq> PDict kvs)
      \<longrightarrow> get_user_tokens E self code = Inr (PStr '''', PStr ''''))
 \<and> (token_request E self code = Inr r \<and> json r = Inr (PDict kvs)
      \<and> map_of kvs ''access_token'' = Some a \<and> map_of kvs ''id_token'' = Some i
      \<longrightarrow> get_user_tokens E self code = Inr (a, i))"
proof (intro conjI impI)
  assume "token_request E self code = Inl e"
  then show "get_user_tokens E self code = Inl e"
    by (simp add: get_user_tokens_def)
next
  assume "token_request E self code = Inr r \<and> json r = Inl e \<and> \<not> key_or_type_error e"
  then show "get_user_tokens E self code = Inl e"
    by (simp add: get_user_tokens_def response_tokens_error)
next
  assume a: "token_request E self code = Inr r \<and> json r = Inr (PDict kvs)
      \<and> (map_of kvs ''access_token'' = None \<or> map_of kvs ''id_token'' = None)"
  then have "response_tokens r = Inl KeyError"
    by (auto simp: response_tokens_dict split: option.splits)
  with a show "get_user_tokens E self code = Inr (PStr '''', PStr '''')"
    by (simp add: get_user_tokens_def key_or_type_error_def)
next
  assume a: "token_request E self code = Inr r \<and> json r = Inr j \<and> (\<forall>kvs. j \<noteq> PDict kvs)"
  then have "response_tokens r = Inl TypeError"
    by (simp add: response_tokens_not_dict)
  with a show "get_user_tokens E self code = Inr (PStr '''', PStr '''')"
    by (simp add: get_user_tokens_def key_or_type_error_def)
next
  assume a: "token_request E self code = Inr r \<and> json r = Inr (PDict kvs)
      \<and> map_of kvs ''access_token'' = Some a \<and> map_of kvs ''id_token'' = Some i"
  then have "response_tokens r = Inr (a, i)"
    by (simp add: response_tokens_dict)
  with a show "get_user_tokens E self code = Inr (a, i)"
    by (simp add: get_user_tokens_def)
qed

text \<open>
  One case for each part: no connection; a gateway error page; a rejection with a
  JSON error object; an answer that lacks the \<open>id_token\<close>; an answer that is a JSON
  list; an answer of status 400 that carries both tokens.
\<close>

theorem get_user_tokens_outcomes_witness:
  "token_request (env_with_post (Inl ConnectionError)) example_self ''code'' = Inl ConnectionError
 \<and> get_user_tokens (env_with_post (Inl ConnectionError)) example_self ''code'' = Inl ConnectionError
 \<and> token_request (env_with_post (Inr bad_gateway)) example_self ''code'' = Inr bad_gateway
 \<and> json bad_gateway = Inl JSONDecodeError
 \<and> get_user_tokens (env_with_post (Inr bad_gateway)) example_self ''code'' = Inl JSONDecodeError
 \<and> token_request (env_with_post (Inr rejected)) example_self ''code'' = Inr rejected
 \<and> json rejected = Inr (PDict [(''error'', PStr ''invalid_grant'')])
 \<and> get_user_tokens (env_with_post (Inr rejected)) example_self ''code'' = Inr (PStr '''', PStr '''')
 \<and> get_user_tokens (env_with_post (Inr (json_response 200 (PDict [(''access_token'', PStr ''A'')]))))
       example_self ''code'' = Inr (PStr '''', PStr '''')
 \<and> get_user_tokens (env_with_post (Inr (json_response 200 (PList [])))) example_self ''code''
       = Inr (PStr '''', PStr '''')
 \<and> get_user_tokens
       (env_with_post (Inr (json_response 400
          (PDict [(''access_token'', PStr ''A''), (''id_token'', PStr ''h.e30.s'')]))))
       example_self ''code'' = Inr (PStr ''A'', PStr ''h.e30.s'')"
  using
    get_user_tokens_outcomes [of "env_with_post (Inl ConnectionError)" example_self "''code''" ConnectionError]
    get_user_tokens_outcomes [of "env_with_post (Inr bad_gateway)" example_self "''code''" JSONDecodeError bad_gateway]
    get_user_tokens_outcomes [of "env_with_post (Inr rejected)" example_self "''code''" _ rejected
       "[(''error'', PStr ''invalid_grant'')]"]
    get_user_tokens_outcomes [of "env_with_post (Inr (json_response 200 (PDict [(''access_token'', PStr ''A'')])))"
       example_self "''code''" _ "json_response 200 (PDict [(''access_token'', PStr ''A'')])"
       "[(''access_token'', PStr ''A'')]"]
    get_user_tokens_outcomes [of "env_with_post (Inr (json_response 200 (PList [])))"
       example_self "''code''" _ "json_response 200 (PList [])" _ "PList []"]
    get_user_tokens_outcomes [of "env_with_post (Inr (json_response 400 (PDict [(''access_token'', PStr ''A''), (''id_token'', PStr ''h.e30.s'')])))"
       example_self "''code''" _ "json_response 400 (PDict [(''access_token'', PStr ''A''), (''id_token'', PStr ''h.e30.s'')])"
       "[(''access_token'', PStr ''A''), (''id_token'', PStr ''h.e30.s'')]" _ "PStr ''A''" "PStr ''h.e30.s''"]
  by (simp add: bad_gateway_def rejected_def json_response_def key_or_type_error_def)


section \<open>The authorization code\<close>




section \<open>Roles\<close>

text \<open>
  C7. For every role and every store: \<open>check_role\<close> returns false when no
  \<open>user_groups\<close> value is persisted, and when the persisted value is a list it
  returns whether the role is an element of that list; so it returns false for the
  empty list, and true exactly when the role is in the list.
\<close>

theorem check_role_membership:
  "(store_get s ''user_groups'' = None \<longrightarrow> check_role E s role = Inr False)
 \<and> (store_get s ''user_groups'' = Some g \<and> json_loads E g = Inr (PList gs)
      \<longrightarrow> check_role E s role = Inr (PStr role \<in> set gs))
 \<and> (store_get s ''user_groups'' = Some g \<and> json_loads E g = Inr (PList [])
      \<longrightarrow> check_role E s role = Inr False)"
  by (simp add: check_role_def)

text \<open>
  A store without cookies; the store of a user in the group \<open>readers\<close>, asked for
  \<open>readers\<close> and for \<open>writers\<close>; a store with the empty list.
\<close>

theorem check_role_membership_witness:
  \<open>store_get empty_store ''user_groups'' = None
 \<and> check_role example_env empty_store ''admin'' = Inr False
 \<and> store_get logged_in_store ''user_groups'' = Some ''["readers"]''
 \<and> json_loads example_env ''["readers"]'' = Inr (PList [PStr ''readers''])
 \<and> check_role example_env logged_in_store ''readers'' = Inr True
 \<and> check_role example_env logged_in_store ''writers'' = Inr False
 \<and> store_get partial_store ''user_groups'' = Some ''[]''
 \<and> json_loads example_env ''[]'' = Inr (PList [])
 \<and> check_role example_env partial_store ''admin'' = Inr False\<close>
  using check_role_membership [where s = empty_store and E = example_env and role = "''admin''"]
        check_role_membership [where s = logged_in_store and g = \<open>''["readers"]''\<close> and E = example_env
          and gs = "[PStr ''readers'']" and role = "''readers''"]
        check_role_membership [where s = logged_in_store and g = \<open>''["readers"]''\<close> and E = example_env
          and gs = "[PStr ''readers'']" and role = "''writers''"]
        check_role_membership [where s = partial_store and g = "''[]''" and E = example_env
          and gs = "[]" and role = "''admin''"]
  by (simp add: store_get_def empty_store_def logged_in_store_def partial_store_def)

section \<open>The access check\<close>

text \<open>
  C10. When the persisted tokens object exists but has no \<open>access_token\<close> key or no
  \<open>id_token\<close> key, \<open>check_access\<close> returns no value (\<open>None\<close>), not a boolean. When
  the \<open>tokens\<close> key is absent from the store, \<open>check_access\<close> fails: \<^verbatim>\<open>json.loads\<close>
  is applied to the \<open>None\<close> that \<^verbatim>\<open>.get\<close> gives for the missing key, before the
  test for \<open>None\<close>, and raises \<^verbatim>\<open>TypeError\<close>.
\<close>

theorem check_access_no_value:
  "(store_get s ''tokens'' = Some t \<and> json_loads E t = Inr (PDict kvs)
      \<and> (''access_token'' \<notin> set (map fst kvs) \<or> ''id_token'' \<notin> set (map fst kvs))
      \<longrightarrow> check_access E self s = Inr None)
 \<and> (store_get s ''tokens'' = None \<longrightarrow> check_access E self s = Inl TypeError)"
  by (auto simp: check_access_def json_loads_opt_def)

text \<open>
  A tokens object without \<open>id_token\<close>; the empty tokens object that the
  initialisation writes; a store without cookies.
\<close>

theorem check_access_no_value_witness:
  \<open>store_get partial_store ''tokens'' = Some ''{"access_token": "A"}''
 \<and> json_loads example_env ''{"access_token": "A"}'' = Inr (PDict [(''access_token'', PStr ''A'')])
 \<and> check_access example_env example_self partial_store = Inr None
 \<and> check_access example_env example_self (initialise_st_state_vars example_env empty_store) = Inr None
 \<and> store_get empty_store ''tokens'' = None
 \<and> check_access example_env example_self empty_store = Inl TypeError\<close>
  using check_access_no_value [where s = partial_store and t = \<open>''{"access_token": "A"}''\<close>
          and E = example_env and kvs = "[(''access_token'', PStr ''A'')]" and self = example_self]
        check_access_no_value [where s = "initialise_st_state_vars example_env empty_store" and t = "''{}''"
          and E = example_env and kvs = "[]" and self = example_self]
        check_access_no_value [where s = empty_store and E = example_env and self = example_self]
  by (simp add: store_get_def empty_store_def partial_store_def initialise_tokens store_has_def)

section \<open>Verification of the identity token\<close>

text \<open>
  C4, as the claim states it, fails: \<open>verify_token\<close> catches the two exception
  classes with which the verification library reports an invalid token, and nothing
  else. The library fetches the key set of the provider over the network; when that
  fails, the exception is raised to the caller of \<open>verify_token\<close>.
\<close>

theorem verify_token_library_failure:
  "cognitojwt_decode (env_with_decode (Inl ConnectionError)) (PStr ''h.e30.s'')
     (region example_self) (pool_id example_self) (client_id example_self) = Inl ConnectionError
 \<and> verify_token (env_with_decode (Inl ConnectionError)) example_self (PStr ''h.e30.s'') = Inl ConnectionError"
  by (simp add: verify_token_def env_with_decode_def jwt_error_def)

text \<open>
  C4, amended. For every identity token, \<open>verify_token\<close> returns true when the
  verification library accepts the token, and false when the library reports a
  failure as \<^verbatim>\<open>CognitoJWTException\<close> or \<^verbatim>\<open>JWTError\<close>; any other exception of the
  library is raised to the caller. The result depends on nothing but what the
  library answers for the token and the configured region, pool and client.
\<close>

theorem verify_token_outcomes:
  "(cognitojwt_decode E t (region self) (pool_id self) (client_id self) = Inr c
      \<longrightarrow> verify_token E self t = Inr True)
 \<and> (cognitojwt_decode E t (region self) (pool_id self) (client_id self) = Inl e \<and> jwt_error e
      \<longrightarrow> verify_token E self t = Inr False)
 \<and> (cognitojwt_decode E t (region self) (pool_id self) (client_id self) = Inl e \<and> \<not> jwt_error e
      \<longrightarrow> verify_token E self t = Inl e)
 \<and> (cognitojwt_decode E = cognitojwt_decode E' \<longrightarrow> verify_token E self t = verify_token E' self t)"
  by (simp add: verify_token_def)

text \<open>
  A token the library accepts, one it rejects with each of the two exceptions, a
  failure to reach the provider, and the same library under another request.
\<close>

theorem verify_token_outcomes_witness:
  "verify_token (env_with_decode (Inr (PDict []))) example_self (PStr ''h.e30.s'') = Inr True
 \<and> jwt_error CognitoJWTException
 \<and> verify_token (env_with_decode (Inl CognitoJWTException)) example_self (PStr ''h.e30.s'') = Inr False
 \<and> jwt_error JWTError
 \<and> verify_token (env_with_decode (Inl JWTError)) example_self (PStr ''abc'') = Inr False
 \<and> verify_token (env_with_decode (Inl ConnectionError)) example_self (PStr ''h.e30.s'') = Inl ConnectionError
 \<and> cognitojwt_decode (env_with_decode (Inl JWTError))
     = cognitojwt_decode (with_query [''code'' \<mapsto> [''abc'']] (env_with_decode (Inl JWTError)))
 \<and> verify_token (with_query [''code'' \<mapsto> [''abc'']] (env_with_decode (Inl JWTError)))
     example_self (PStr ''abc'') = Inr False"
  using verify_token_outcomes [where E = "env_with_decode (Inr (PDict []))" and t = "PStr ''h.e30.s''"
          and self = example_self and c = "PDict []" and E' = "env_with_decode (Inr (PDict []))"]
        verify_token_outcomes [where E = "env_with_decode (Inl CognitoJWTException)" and t = "PStr ''h.e30.s''"
          and self = example_self and e = CognitoJWTException and E' = "env_with_decode (Inl CognitoJWTException)"]
        verify_token_outcomes [where E = "env_with_decode (Inl JWTError)" and t = "PStr ''abc''"
          and self = example_self and e = JWTError
          and E' = "with_query [''code'' \<mapsto> [''abc'']] (env_with_decode (Inl JWTError))"]
        verify_token_outcomes [where E = "env_with_decode (Inl ConnectionError)" and t = "PStr ''h.e30.s''"
          and self = example_self and e = ConnectionError and E' = "env_with_decode (Inl ConnectionError)"]
  by (auto simp add: env_with_decode_def with_query_def jwt_error_def)


section \<open>The groups of the user\<close>

lemma map_of_dict_items:
  "map_of (map (\<lambda>kv. (PStr (fst kv), snd kv)) kvs) (PStr k) = map_of kvs k"
  by (induction kvs) auto

lemma groups_of_payload_dict:
  "groups_of_payload (PDict kvs) =
     (case map_of kvs ''cognito:groups'' of None \<Rightarrow> Inl KeyError | Some g \<Rightarrow> py_list g)"
  by (simp add: groups_of_payload_def dict_getitem_def map_of_dict_items split: option.splits)

lemma groups_of_payload_scalar:
  "scalar v \<Longrightarrow> groups_of_payload v = Inl TypeError"
  by (cases v) (simp_all add: groups_of_payload_def scalar_def)

lemma get_user_groups_segments:
  "split_char (CHR ''.'') t = [h, p, sg] \<Longrightarrow>
   get_user_groups E (PStr t) =
     (case urlsafe_b64decode E (pad_base64 p) of
        Inl e \<Rightarrow> Inl e
      | Inr b \<Rightarrow>
          (case json_loads E b of
             Inl e \<Rightarrow> Inl e
           | Inr payload_dict \<Rightarrow>
               (case groups_of_payload payload_dict of
                  Inr user_groups \<Rightarrow> Inr user_groups
                | Inl e \<Rightarrow> if key_or_type_error e then Inr [] else Inl e)))"
  by (cases t) (simp_all add: get_user_groups_def)

lemma get_user_groups_not_three:
  assumes "t \<noteq> ''''" "length (split_char (CHR ''.'') t) \<noteq> 3"
  shows "get_user_groups E (PStr t) = Inl ValueError"
proof -
  have "(case split_char (CHR ''.'') t of [h, p, sg] \<Rightarrow> f h p sg | _ \<Rightarrow> Inl ValueError) = Inl ValueError"
    for f :: "string \<Rightarrow> string \<Rightarrow> string \<Rightarrow> error + pyval list"
    using assms(2) by (auto split: list.splits)
  with assms(1) show ?thesis by (simp add: get_user_groups_def)
qed

text \<open>
  C5, as the claim states it, fails: the split of the token into three segments,
  the base64 decoding and \<^verbatim>\<open>json.loads\<close> come before the \<^verbatim>\<open>try\<close>. The payload
  \<^verbatim>\<open>eA\<close> decodes to the text \<^verbatim>\<open>x\<close>, which does not parse; \<open>get_user_groups\<close> then
  raises the error of \<^verbatim>\<open>json.loads\<close> and does not return the empty list. A string
  without two dots fails at the split.
\<close>

theorem get_user_groups_failure:
  "split_char (CHR ''.'') ''h.eA.s'' = [''h'', ''eA'', ''s'']
 \<and> urlsafe_b64decode example_env (pad_base64 ''eA'') = Inr ''x''
 \<and> json_loads example_env ''x'' = Inl JSONDecodeError
 \<and> get_user_groups example_env (PStr ''h.eA.s'') = Inl JSONDecodeError
 \<and> get_user_groups example_env (PStr ''abc'') = Inl ValueError"
  by (simp add: get_user_groups_def split_examples del: split_char.simps)

text \<open>
  C5, amended. \<open>get_user_groups\<close> returns the empty list for the empty string. For
  a token of three dot-separated segments whose payload segment, padded, decodes
  and parses to a JSON object, it returns the list stored under \<open>cognito:groups\<close>,
  in the order of the claim, and the empty list if the object has no such key; it
  also returns the empty list if the payload parses to \<open>null\<close>, a boolean or a
  number. It fails, with the error of the step, on a non-empty string that does not
  have exactly three segments, on a payload that does not decode, and on a payload
  that does not parse.
\<close>

theorem get_user_groups_outcomes:
  "get_user_groups E (PStr '''') = Inr []
 \<and> (split_char (CHR ''.'') t = [h, p, sg] \<and> urlsafe_b64decode E (pad_base64 p) = Inr b
      \<and> json_loads E b = Inr (PDict kvs) \<and> map_of kvs ''cognito:groups'' = Some (PList gs)
      \<longrightarrow> get_user_groups E (PStr t) = Inr gs)
 \<and> (split_char (CHR ''.'') t = [h, p, sg] \<and> urlsafe_b64decode E (pad_base64 p) = Inr b
      \<and> json_loads E b = Inr (PDict kvs) \<and> map_of kvs ''cognito:groups'' = None
      \<longrightarrow> get_user_groups E (PStr t) = Inr [])
 \<and> (split_char (CHR ''.'') t = [h, p, sg] \<and> urlsafe_b64decode E (pad_base64 p) = Inr b
      \<and> json_loads E b = Inr v \<and> scalar v
      \<longrightarrow> get_user_groups E (PStr t) = Inr [])
 \<and> (t \<noteq> '''' \<and> length (split_char (CHR ''.'') t) \<noteq> 3
      \<longrightarrow> get_user_groups E (PStr t) = Inl ValueError)
 \<and> (split_char (CHR ''.'') t = [h, p, sg] \<and> urlsafe_b64decode E (pad_base64 p) = Inl e
      \<longrightarrow> get_user_groups E (PStr t) = Inl e)
 \<and> (split_char (CHR ''.'') t = [h, p, sg] \<and> urlsafe_b64decode E (pad_base64 p) = Inr b
      \<and> json_loads E b = Inl e
      \<longrightarrow> get_user_groups E (PStr t) = Inl e)"
proof (intro conjI impI)
  show "get_user_groups E (PStr '''') = Inr []"
    by (simp add: get_user_groups_def)
next
  assume "split_char (CHR ''.'') t = [h, p, sg] \<and> urlsafe_b64decode E (pad_base64 p) = Inr b
      \<and> json_loads E b = Inr (PDict kvs) \<and> map_of kvs ''cognito:groups'' = Some (PList gs)"
  then show "get_user_groups E (PStr t) = Inr gs"
    by (simp add: get_user_groups_segments groups_of_payload_dict)
next
  assume "split_char (CHR ''.'') t = [h, p, sg] \<and> urlsafe_b64decode E (pad_base64 p) = Inr b
      \<and> json_loads E b = Inr (PDict kvs) \<and> map_of kvs ''cognito:groups'' = None"
  then show "get_user_groups E (PStr t) = Inr []"
    by (simp add: get_user_groups_segments groups_of_payload_dict key_or_type_error_def)
next
  assume "split_char (CHR ''.'') t = [h, p, sg] \<and> urlsafe_b64decode E (pad_base64 p) = Inr b
      \<and> json_loads E b = Inr v \<and> scalar v"
  then show "get_user_groups E (PStr t) = Inr []"
    by (simp add: get_user_groups_segments groups_of_payload_scalar key_or_type_error_def)
next
  assume "t \<noteq> '''' \<and> length (split_char (CHR ''.'') t) \<noteq> 3"
  then show "get_user_groups E (PStr t) = Inl ValueError"
    by (simp add: get_user_groups_not_three)
next
  assume "split_char (CHR ''.'') t = [h, p, sg] \<and> urlsafe_b64decode E (pad_base64 p) = Inl e"
  then show "get_user_groups E (PStr t) = Inl e"
    by (simp add: get_user_groups_segments)
next
  assume "split_char (CHR ''.'') t = [h, p, sg] \<and> urlsafe_b64decode E (pad_base64 p) = Inr b
      \<and> json_loads E b = Inl e"
  then show "get_user_groups E (PStr t) = Inl e"
    by (simp add: get_user_groups_segments)
qed

text \<open>
  The empty string; a token with the groups \<open>a\<close> and \<open>b\<close>; a token with the
  payload \<^verbatim>\<open>{}\<close>; one with the payload \<^verbatim>\<open>1\<close>; a string without dots; a payload
  that is not base64; a payload that is not JSON.
\<close>

theorem get_user_groups_outcomes_witness:
  \<open>get_user_groups example_env (PStr '''') = Inr []
 \<and> split_char (CHR ''.'') ''h.eyJjb2duaXRvOmdyb3VwcyI6IFsiYSIsICJiIl19.s''
      = [''h'', ''eyJjb2duaXRvOmdyb3VwcyI6IFsiYSIsICJiIl19'', ''s'']
 \<and> get_user_groups example_env (PStr ''h.eyJjb2duaXRvOmdyb3VwcyI6IFsiYSIsICJiIl19.s'')
      = Inr [PStr ''a'', PStr ''b'']
 \<and> get_user_groups example_env (PStr ''h.e30.s'') = Inr []
 \<and> scalar (PInt 1)
 \<and> get_user_groups example_env (PStr ''h.MQ.s'') = Inr []
 \<and> length (split_char (CHR ''.'') ''abc'') = 1
 \<and> get_user_groups example_env (PStr ''abc'') = Inl ValueError
 \<and> get_user_groups example_env (PStr ''h.a.s'') = Inl Base64Error
 \<and> get_user_groups example_env (PStr ''h.eA.s'') = Inl JSONDecodeError\<close>
  using get_user_groups_outcomes [where E = example_env and t = "''h.eyJjb2duaXRvOmdyb3VwcyI6IFsiYSIsICJiIl19.s''"
          and h = "''h''" and p = "''eyJjb2duaXRvOmdyb3VwcyI6IFsiYSIsICJiIl19''" and sg = "''s''"
          and b = \<open>''{"cognito:groups": ["a", "b"]}''\<close>
          and kvs = "[(''cognito:groups'', PList [PStr ''a'', PStr ''b''])]"
          and gs = "[PStr ''a'', PStr ''b'']"]
        get_user_groups_outcomes [where E = example_env and t = "''h.e30.s''"
          and h = "''h''" and p = "''e30''" and sg = "''s''" and b = "''{}''" and kvs = "[]"]
        get_user_groups_outcomes [where E = example_env and t = "''h.MQ.s''"
          and h = "''h''" and p = "''MQ''" and sg = "''s''" and b = "''1''" and v = "PInt 1"]
        get_user_groups_outcomes [where E = example_env and t = "''abc''"]
        get_user_groups_outcomes [where E = example_env and t = "''h.a.s''"
          and h = "''h''" and p = "''a''" and sg = "''s''" and e = Base64Error]
        get_user_groups_outcomes [where E = example_env and t = "''h.eA.s''"
          and h = "''h''" and p = "''eA''" and sg = "''s''" and b = "''x''" and e = JSONDecodeError]
  by (simp add: scalar_def split_examples del: split_char.simps)



section \<open>The session after \<open>activate\<close>\<close>

lemma get_user_tokens_missing_key:
  "token_request E self code = Inr r \<Longrightarrow> json r = Inr (PDict kvs) \<Longrightarrow>
   map_of kvs ''access_token'' = None \<or> map_of kvs ''id_token'' = None \<Longrightarrow>
   get_user_tokens E self code = Inr (PStr '''', PStr '''')"
  by (auto simp: get_user_tokens_def response_tokens_dict key_or_type_error_def split: option.splits)

lemma get_user_groups_empty [simp]: "get_user_groups E (PStr '''') = Inr []"
  by (simp add: get_user_groups_def)

lemma activate_run:
  assumes "get_auth_code E = Inr code" "get_user_tokens E self code = Inr (a, i)"
    "get_user_groups E i = Inr g"
  shows "fst (activate E self s) =
     (if a \<noteq> PStr '''' then
        store_save
          (store_set
            (store_set (initialise_st_state_vars E s) ''tokens''
              (json_dumps E (PDict [(''access_token'', a), (''id_token'', i)])))
            ''user_groups'' (json_dumps E (PList g)))
      else initialise_st_state_vars E s)"
    and "snd (activate E self s) = get_user_info E self (fst (activate E self s))"
  using assms by (simp_all add: activate_def Let_def)

lemma activate_stops:
  "get_auth_code E = Inl e \<Longrightarrow> activate E self s = (initialise_st_state_vars E s, Inl e)"
  "get_auth_code E = Inr code \<Longrightarrow> get_user_tokens E self code = Inl e \<Longrightarrow>
     activate E self s = (initialise_st_state_vars E s, Inl e)"
  "get_auth_code E = Inr code \<Longrightarrow> get_user_tokens E self code = Inr (a, i) \<Longrightarrow>
     get_user_groups E i = Inl e \<Longrightarrow> activate E self s = (initialise_st_state_vars E s, Inl e)"
  by (simp_all add: activate_def Let_def)

lemma activate_persisted:
  "persisted (fst (activate E self s)) = cookies (fst (activate E self s))"
proof (cases "get_auth_code E")
  case (Inl e)
  then show ?thesis by (simp add: activate_stops initialise_persisted)
next
  case code: (Inr code)
  show ?thesis
  proof (cases "get_user_tokens E self code")
    case (Inl e)
    with code show ?thesis by (simp add: activate_stops initialise_persisted)
  next
    case (Inr p)
    obtain a i where p: "p = (a, i)" by (cases p)
    show ?thesis
    proof (cases "get_user_groups E i")
      case (Inl e)
      with code Inr p show ?thesis by (simp add: activate_stops initialise_persisted)
    next
      case g: (Inr g)
      with code Inr p show ?thesis
        by (simp add: activate_run initialise_persisted store_save_def)
    qed
  qed
qed

lemma get_user_tokens_both_keys:
  "token_request E self code = Inr r \<Longrightarrow> json r = Inr (PDict kvs) \<Longrightarrow>
   map_of kvs ''access_token'' = Some a \<Longrightarrow> map_of kvs ''id_token'' = Some i \<Longrightarrow>
   get_user_tokens E self code = Inr (a, i)"
  by (simp add: get_user_tokens_def response_tokens_dict)

lemma response_tokens_Inr:
  assumes "response_tokens r = Inr (a, i)"
  shows "\<exists>kvs. json r = Inr (PDict kvs) \<and> map_of kvs ''access_token'' = Some a
           \<and> map_of kvs ''id_token'' = Some i"
proof (cases "json r")
  case (Inl e)
  with assms show ?thesis by (simp add: response_tokens_def)
next
  case (Inr j)
  show ?thesis
  proof (cases j)
    case (PDict kvs)
    with Inr assms show ?thesis
      by (auto simp: response_tokens_dict split: option.splits)
  qed (use Inr assms in \<open>simp_all add: response_tokens_def\<close>)
qed

lemma get_user_tokens_from_provider:
  assumes "get_user_tokens E self code = Inr (a, i)" "a \<noteq> PStr ''''"
  shows "\<exists>r kvs. token_request E self code = Inr r \<and> json r = Inr (PDict kvs)
           \<and> map_of kvs ''access_token'' = Some a \<and> map_of kvs ''id_token'' = Some i"
proof (cases "token_request E self code")
  case (Inl e)
  with assms show ?thesis by (simp add: get_user_tokens_def)
next
  case (Inr r)
  show ?thesis
  proof (cases "response_tokens r")
    case (Inl e)
    with Inr assms show ?thesis by (simp add: get_user_tokens_def split: if_splits)
  next
    case rt: (Inr p)
    with Inr assms have "response_tokens r = Inr (a, i)" by (simp add: get_user_tokens_def)
    from response_tokens_Inr [OF this] Inr show ?thesis by blast
  qed
qed

lemma activate_tokens_provider:
  "cookies (fst (activate E self s)) ''tokens'' = cookies (initialise_st_state_vars E s) ''tokens''
 \<or> (\<exists>code r kvs a i. get_auth_code E = Inr code \<and> token_request E self code = Inr r
        \<and> json r = Inr (PDict kvs) \<and> map_of kvs ''access_token'' = Some a
        \<and> map_of kvs ''id_token'' = Some i \<and> a \<noteq> PStr ''''
        \<and> cookies (fst (activate E self s)) ''tokens'' =
            Some (json_dumps E (PDict [(''access_token'', a), (''id_token'', i)])))"
proof (cases "get_auth_code E")
  case (Inl e)
  then show ?thesis by (simp add: activate_stops)
next
  case code: (Inr code)
  show ?thesis
  proof (cases "get_user_tokens E self code")
    case (Inl e)
    with code show ?thesis by (simp add: activate_stops)
  next
    case (Inr p)
    obtain a i where p: "p = (a, i)" by (cases p)
    show ?thesis
    proof (cases "get_user_groups E i")
      case (Inl e)
      with code Inr p show ?thesis by (simp add: activate_stops)
    next
      case g: (Inr g)
      show ?thesis
      proof (cases "a = PStr ''''")
        case True
        with code Inr p g show ?thesis by (simp add: activate_run)
      next
        case False
        with code Inr p g have w: "cookies (fst (activate E self s)) ''tokens'' =
            Some (json_dumps E (PDict [(''access_token'', a), (''id_token'', i)]))"
          by (simp add: activate_run store_save_def store_set_def)
        from Inr p False obtain r kvs where
          "token_request E self code = Inr r" "json r = Inr (PDict kvs)"
          "map_of kvs ''access_token'' = Some a" "map_of kvs ''id_token'' = Some i"
          using get_user_tokens_from_provider [of E self code a i] by auto
        with code False w show ?thesis by blast
      qed
    qed
  qed
qed

subsection \<open>Concrete runs\<close>

lemma env_with_post_simps [simp]:
  "json_loads (env_with_post r) = example_loads"
  "json_dumps (env_with_post r) = example_dumps"
  "urlsafe_b64decode (env_with_post r) = example_b64decode"
  "query_params (env_with_post r) = Map.empty"
  "http_get (env_with_post r) = (\<lambda>url headers. Inr \<lparr>status_code = 200, json = Inr profile\<rparr>)"
  by (simp_all add: env_with_post_def example_env_def)

lemma example_dumps_pairs [simp]:
  \<open>example_dumps (PDict [(''access_token'', PStr ''A''), (''id_token'', PStr '''')])
     = ''{"access_token": "A", "id_token": ""}''\<close>
  \<open>example_dumps (PDict [(''access_token'', PStr ''A''), (''id_token'', PStr ''h.e30.s'')])
     = ''{"access_token": "A", "id_token": "h.e30.s"}''\<close>
  by (simp_all add: example_dumps_def example_json_def)

lemma get_auth_code_no_query [simp]: "get_auth_code (env_with_post r) = Inr ''''"
  by (simp add: get_auth_code_def key_or_type_error_def)

lemma get_user_tokens_both:
  "get_user_tokens (env_with_post (Inr (json_response st (PDict [(''access_token'', a), (''id_token'', i)]))))
     self code = Inr (a, i)"
  by (simp add: get_user_tokens_def response_tokens_def json_response_def)

lemma split_x: "split_char (CHR ''.'') ''x'' = [''x'']"
  by code_simp

lemma get_user_groups_examples:
  "get_user_groups (env_with_post r) (PStr ''h.e30.s'') = Inr []"
  "get_user_groups (env_with_post r) (PStr ''x'') = Inl ValueError"
  by (simp_all add: get_user_groups_def split_examples split_x groups_of_payload_dict key_or_type_error_def
      del: split_char.simps)

lemma initialise_empty_store:
  "initialise_st_state_vars (env_with_post r) empty_store =
     \<lparr>cookies = [''tokens'' \<mapsto> ''{}'', ''user_groups'' \<mapsto> ''[]''],
      persisted = [''tokens'' \<mapsto> ''{}'', ''user_groups'' \<mapsto> ''[]'']\<rparr>"
  by (simp add: initialise_st_state_vars_def store_has_def store_set_def store_save_def empty_store_def Let_def)

lemma get_user_tokens_rejected [simp]:
  "get_user_tokens (env_with_post (Inr rejected)) self code = Inr (PStr '''', PStr '''')"
  by (simp add: get_user_tokens_def response_tokens_def rejected_def key_or_type_error_def)

lemma initialise_logged_in_store:
  "initialise_st_state_vars (env_with_post r) logged_in_store = logged_in_store"
  by (simp add: initialise_st_state_vars_def store_has_def store_save_def logged_in_store_def Let_def)

lemma empty_store_has: "\<not> store_has empty_store k"
  by (simp add: store_has_def empty_store_def)

lemma json_response_json [simp]: "json (json_response st v) = Inr v"
  by (simp add: json_response_def)

lemma get_user_tokens_no_id_token:
  "get_user_tokens (env_with_post (Inr (json_response st (PDict [(''access_token'', a)])))) self code
     = Inr (PStr '''', PStr '''')"
  by (simp add: get_user_tokens_def response_tokens_def key_or_type_error_def)

lemmas run_accepted =
  activate_run [OF get_auth_code_no_query get_user_tokens_both get_user_groups_examples(1)]

lemmas run_empty_id_token =
  activate_run [OF get_auth_code_no_query get_user_tokens_both get_user_groups_empty]

lemmas run_malformed_id_token =
  activate_stops(3) [OF get_auth_code_no_query get_user_tokens_both get_user_groups_examples(2)]

lemmas run_rejected =
  activate_run [OF get_auth_code_no_query get_user_tokens_rejected get_user_groups_empty]

lemmas run_no_id_token =
  activate_run [OF get_auth_code_no_query get_user_tokens_no_id_token get_user_groups_empty]

lemma empty_store_simps: "cookies empty_store = Map.empty" "persisted empty_store = Map.empty"
  by (simp_all add: empty_store_def)

subsection \<open>What is written to the store\<close>

text \<open>
  C2, as the claim states it, fails: \<open>activate\<close> tests the access token only.
  When the provider answers with an access token and an empty \<open>id_token\<close>, the
  tokens object that is written and flushed has an empty \<open>id_token\<close> field.
\<close>

theorem activate_writes_empty_id_token:
  \<open>get_user_tokens
     (env_with_post (Inr (json_response 200 (PDict [(''access_token'', PStr ''A''), (''id_token'', PStr '''')]))))
     example_self '''' = Inr (PStr ''A'', PStr '''')
 \<and> persisted (fst (activate
       (env_with_post (Inr (json_response 200 (PDict [(''access_token'', PStr ''A''), (''id_token'', PStr '''')]))))
       example_self empty_store)) ''tokens'' = Some ''{"access_token": "A", "id_token": ""}''
 \<and> json_loads example_env ''{"access_token": "A", "id_token": ""}''
     = Inr (PDict [(''access_token'', PStr ''A''), (''id_token'', PStr '''')])\<close>
  by (simp add: activate_def Let_def get_user_tokens_both initialise_empty_store store_set_def store_save_def)

text \<open>
  C2, amended. After \<open>activate\<close> the \<open>tokens\<close> cookie is what it was before, or
  the empty object, or an object with both keys \<open>access_token\<close> and \<open>id_token\<close>
  that holds the two values of the provider's answer, the access token not being the
  empty string; the identity token is written as the provider gave it and is not
  tested. Everything written is flushed. When the answer of the provider has both
  keys and a non-empty access token, and the extraction of the groups does not fail,
  exactly these two values are written. When the answer lacks either key,
  \<open>activate\<close> writes nothing beyond what the initialisation has written.
\<close>

theorem activate_tokens_written:
  "(cookies (fst (activate E self s)) ''tokens'' = cookies s ''tokens''
    \<or> cookies (fst (activate E self s)) ''tokens'' = Some (json_dumps E (PDict []))
    \<or> (\<exists>code r kvs a i. get_auth_code E = Inr code \<and> token_request E self code = Inr r
          \<and> json r = Inr (PDict kvs) \<and> map_of kvs ''access_token'' = Some a
          \<and> map_of kvs ''id_token'' = Some i \<and> a \<noteq> PStr ''''
          \<and> cookies (fst (activate E self s)) ''tokens'' =
              Some (json_dumps E (PDict [(''access_token'', a), (''id_token'', i)]))))
 \<and> persisted (fst (activate E self s)) = cookies (fst (activate E self s))
 \<and> (get_auth_code E = Inr code \<and> token_request E self code = Inr r \<and> json r = Inr (PDict kvs)
      \<and> map_of kvs ''access_token'' = Some a \<and> map_of kvs ''id_token'' = Some i
      \<and> a \<noteq> PStr '''' \<and> get_user_groups E i = Inr g
      \<longrightarrow> cookies (fst (activate E self s)) ''tokens'' =
            Some (json_dumps E (PDict [(''access_token'', a), (''id_token'', i)])))
 \<and> (get_auth_code E = Inr code \<and> token_request E self code = Inr r \<and> json r = Inr (PDict kvs)
      \<and> (map_of kvs ''access_token'' = None \<or> map_of kvs ''id_token'' = None)
      \<longrightarrow> fst (activate E self s) = initialise_st_state_vars E s)"
proof (intro conjI impI)
  show "cookies (fst (activate E self s)) ''tokens'' = cookies s ''tokens''
    \<or> cookies (fst (activate E self s)) ''tokens'' = Some (json_dumps E (PDict []))
    \<or> (\<exists>code r kvs a i. get_auth_code E = Inr code \<and> token_request E self code = Inr r
          \<and> json r = Inr (PDict kvs) \<and> map_of kvs ''access_token'' = Some a
          \<and> map_of kvs ''id_token'' = Some i \<and> a \<noteq> PStr ''''
          \<and> cookies (fst (activate E self s)) ''tokens'' =
              Some (json_dumps E (PDict [(''access_token'', a), (''id_token'', i)])))"
  proof (cases "cookies (fst (activate E self s)) ''tokens'' = cookies (initialise_st_state_vars E s) ''tokens''")
    case True
    then show ?thesis
      using initialise_tokens [of E s] by (auto split: if_splits)
  next
    case False
    with activate_tokens_provider [of E self s] show ?thesis by blast
  qed
next
  show "persisted (fst (activate E self s)) = cookies (fst (activate E self s))"
    by (rule activate_persisted)
next
  assume a: "get_auth_code E = Inr code \<and> token_request E self code = Inr r \<and> json r = Inr (PDict kvs)
      \<and> map_of kvs ''access_token'' = Some a \<and> map_of kvs ''id_token'' = Some i
      \<and> a \<noteq> PStr '''' \<and> get_user_groups E i = Inr g"
  then have "get_user_tokens E self code = Inr (a, i)"
    using get_user_tokens_both_keys [of E self code r kvs a i] by blast
  with a show "cookies (fst (activate E self s)) ''tokens'' =
            Some (json_dumps E (PDict [(''access_token'', a), (''id_token'', i)]))"
    by (simp add: activate_run store_save_def store_set_def)
next
  assume a: "get_auth_code E = Inr code \<and> token_request E self code = Inr r \<and> json r = Inr (PDict kvs)
      \<and> (map_of kvs ''access_token'' = None \<or> map_of kvs ''id_token'' = None)"
  then have "get_user_tokens E self code = Inr (PStr '''', PStr '''')"
    using get_user_tokens_missing_key [of E self code r kvs] by blast
  with a show "fst (activate E self s) = initialise_st_state_vars E s"
    by (simp add: activate_run)
qed

text \<open>
  An answer without \<open>id_token\<close> on a first visit; an answer with both tokens on a
  first visit; a rejected code for a client that was logged in.
\<close>

theorem activate_tokens_written_witness:
  \<open>get_auth_code (env_with_post (Inr (json_response 200 (PDict [(''access_token'', PStr ''A'')])))) = Inr ''''
 \<and> token_request (env_with_post (Inr (json_response 200 (PDict [(''access_token'', PStr ''A'')]))))
       example_self '''' = Inr (json_response 200 (PDict [(''access_token'', PStr ''A'')]))
 \<and> json (json_response 200 (PDict [(''access_token'', PStr ''A'')])) = Inr (PDict [(''access_token'', PStr ''A'')])
 \<and> map_of [(''access_token'', PStr ''A'')] ''id_token'' = None
 \<and> fst (activate (env_with_post (Inr (json_response 200 (PDict [(''access_token'', PStr ''A'')]))))
       example_self empty_store)
     = initialise_st_state_vars (env_with_post (Inr (json_response 200 (PDict [(''access_token'', PStr ''A'')]))))
         empty_store
 \<and> cookies (fst (activate (env_with_post (Inr (json_response 200 (PDict [(''access_token'', PStr ''A'')]))))
       example_self empty_store)) ''tokens'' = Some ''{}''
 \<and> token_request
       (env_with_post (Inr (json_response 200
          (PDict [(''access_token'', PStr ''A''), (''id_token'', PStr ''h.e30.s'')]))))
       example_self ''''
     = Inr (json_response 200 (PDict [(''access_token'', PStr ''A''), (''id_token'', PStr ''h.e30.s'')]))
 \<and> map_of [(''access_token'', PStr ''A''), (''id_token'', PStr ''h.e30.s'')] ''access_token'' = Some (PStr ''A'')
 \<and> map_of [(''access_token'', PStr ''A''), (''id_token'', PStr ''h.e30.s'')] ''id_token'' = Some (PStr ''h.e30.s'')
 \<and> get_user_groups
       (env_with_post (Inr (json_response 200
          (PDict [(''access_token'', PStr ''A''), (''id_token'', PStr ''h.e30.s'')]))))
       (PStr ''h.e30.s'') = Inr []
 \<and> cookies (fst (activate
       (env_with_post (Inr (json_response 200
          (PDict [(''access_token'', PStr ''A''), (''id_token'', PStr ''h.e30.s'')]))))
       example_self empty_store)) ''tokens'' = Some ''{"access_token": "A", "id_token": "h.e30.s"}''
 \<and> persisted (fst (activate
       (env_with_post (Inr (json_response 200
          (PDict [(''access_token'', PStr ''A''), (''id_token'', PStr ''h.e30.s'')]))))
       example_self empty_store)) ''tokens'' = Some ''{"access_token": "A", "id_token": "h.e30.s"}''
 \<and> cookies (fst (activate (env_with_post (Inr rejected)) example_self logged_in_store)) ''tokens''
     = cookies logged_in_store ''tokens''\<close>
  using activate_tokens_written [where E = "env_with_post (Inr (json_response 200 (PDict [(''access_token'', PStr ''A'')])))"
          and self = example_self and s = empty_store and code = "''''"
          and r = "json_response 200 (PDict [(''access_token'', PStr ''A'')])"
          and kvs = "[(''access_token'', PStr ''A'')]"]
        activate_tokens_written [where E = "env_with_post (Inr (json_response 200
            (PDict [(''access_token'', PStr ''A''), (''id_token'', PStr ''h.e30.s'')])))"
          and self = example_self and s = empty_store and code = "''''"
          and r = "json_response 200 (PDict [(''access_token'', PStr ''A''), (''id_token'', PStr ''h.e30.s'')])"
          and kvs = "[(''access_token'', PStr ''A''), (''id_token'', PStr ''h.e30.s'')]"
          and a = "PStr ''A''" and i = "PStr ''h.e30.s''" and g = "[]"]
  by (simp add: run_accepted run_rejected run_no_id_token initialise_empty_store
        initialise_logged_in_store store_set_def store_save_def get_user_groups_examples)

subsection \<open>When the session is persisted\<close>

text \<open>
  C3, as the claim states it, fails: the groups are extracted from the identity
  token before the access token is tested, and the extraction can fail. When the
  exchange yields the access token \<open>A\<close> and an identity token without dots,
  \<open>activate\<close> raises \<^verbatim>\<open>ValueError\<close> and the store holds the empty session only.
\<close>

theorem activate_fails_on_malformed_id_token:
  \<open>get_user_tokens
     (env_with_post (Inr (json_response 200 (PDict [(''access_token'', PStr ''A''), (''id_token'', PStr ''x'')]))))
     example_self '''' = Inr (PStr ''A'', PStr ''x'')
 \<and> snd (activate
       (env_with_post (Inr (json_response 200 (PDict [(''access_token'', PStr ''A''), (''id_token'', PStr ''x'')]))))
       example_self empty_store) = Inl ValueError
 \<and> cookies (fst (activate
       (env_with_post (Inr (json_response 200 (PDict [(''access_token'', PStr ''A''), (''id_token'', PStr ''x'')]))))
       example_self empty_store)) = [''tokens'' \<mapsto> ''{}'', ''user_groups'' \<mapsto> ''[]'']
 \<and> persisted (fst (activate
       (env_with_post (Inr (json_response 200 (PDict [(''access_token'', PStr ''A''), (''id_token'', PStr ''x'')]))))
       example_self empty_store)) = [''tokens'' \<mapsto> ''{}'', ''user_groups'' \<mapsto> ''[]'']\<close>
  by (simp add: activate_def Let_def get_user_tokens_both get_user_groups_examples initialise_empty_store)

text \<open>
  C3, amended. Provided the extraction of the groups from the identity token does
  not fail: when the exchange yields an access token that is not the empty string,
  \<open>activate\<close> writes the object with \<open>access_token\<close> and \<open>id_token\<close> and the list
  of groups and flushes; when the access token is the empty string it writes nothing
  beyond the initialisation. On a first visit without \<open>code\<close> and without a prior
  session, where the exchange yields the empty pair, \<open>activate\<close> leaves the empty
  tokens object and the empty list of groups, flushed, and returns no profile.
\<close>

theorem activate_persists:
  "(get_auth_code E = Inr code \<and> get_user_tokens E self code = Inr (a, i)
      \<and> get_user_groups E i = Inr g \<and> a \<noteq> PStr ''''
      \<longrightarrow> cookies (fst (activate E self s)) =
            (cookies (initialise_st_state_vars E s))
              (''tokens'' \<mapsto> json_dumps E (PDict [(''access_token'', a), (''id_token'', i)]),
               ''user_groups'' \<mapsto> json_dumps E (PList g))
          \<and> persisted (fst (activate E self s)) = cookies (fst (activate E self s)))
 \<and> (get_auth_code E = Inr code \<and> get_user_tokens E self code = Inr (a, i)
      \<and> get_user_groups E i = Inr g \<and> a = PStr ''''
      \<longrightarrow> fst (activate E self s) = initialise_st_state_vars E s)
 \<and> (\<not> store_has s ''tokens'' \<and> \<not> store_has s ''user_groups'' \<and> query_params E ''code'' = None
      \<and> get_user_tokens E self '''' = Inr (PStr '''', PStr '''')
      \<and> json_loads E (json_dumps E (PDict [])) = Inr (PDict [])
      \<longrightarrow> snd (activate E self s) = Inr PNone
          \<and> cookies (fst (activate E self s)) =
              (cookies s)(''tokens'' \<mapsto> json_dumps E (PDict []), ''user_groups'' \<mapsto> json_dumps E (PList []))
          \<and> persisted (fst (activate E self s)) = cookies (fst (activate E self s)))"
proof (intro conjI impI)
  assume a: "get_auth_code E = Inr code \<and> get_user_tokens E self code = Inr (a, i)
      \<and> get_user_groups E i = Inr g \<and> a \<noteq> PStr ''''"
  then show "cookies (fst (activate E self s)) =
            (cookies (initialise_st_state_vars E s))
              (''tokens'' \<mapsto> json_dumps E (PDict [(''access_token'', a), (''id_token'', i)]),
               ''user_groups'' \<mapsto> json_dumps E (PList g))"
    by (simp add: activate_run store_save_def store_set_def)
  show "persisted (fst (activate E self s)) = cookies (fst (activate E self s))"
    by (rule activate_persisted)
next
  assume "get_auth_code E = Inr code \<and> get_user_tokens E self code = Inr (a, i)
      \<and> get_user_groups E i = Inr g \<and> a = PStr ''''"
  then show "fst (activate E self s) = initialise_st_state_vars E s"
    by (simp add: activate_run)
next
  assume a: "\<not> store_has s ''tokens'' \<and> \<not> store_has s ''user_groups'' \<and> query_params E ''code'' = None
      \<and> get_user_tokens E self '''' = Inr (PStr '''', PStr '''')
      \<and> json_loads E (json_dumps E (PDict [])) = Inr (PDict [])"
  then have code: "get_auth_code E = Inr ''''"
    by (simp add: get_auth_code_def key_or_type_error_def)
  have fst: "fst (activate E self s) = initialise_st_state_vars E s"
    using a code by (simp add: activate_run)
  have tok: "cookies (initialise_st_state_vars E s) ''tokens'' = Some (json_dumps E (PDict []))"
    using a by (simp add: initialise_tokens)
  have "get_user_info E self (initialise_st_state_vars E s) = Inr PNone"
    using a tok by (simp add: get_user_info_def store_getitem_def)
  then show "snd (activate E self s) = Inr PNone"
    using a code fst activate_run(2) [of E "''''" self "PStr ''''" "PStr ''''" "[]" s] by simp
  show "cookies (fst (activate E self s)) =
              (cookies s)(''tokens'' \<mapsto> json_dumps E (PDict []), ''user_groups'' \<mapsto> json_dumps E (PList []))"
  proof
    fix k
    show "cookies (fst (activate E self s)) k =
        ((cookies s)(''tokens'' \<mapsto> json_dumps E (PDict []), ''user_groups'' \<mapsto> json_dumps E (PList []))) k"
      using a fst initialise_tokens [of E s] initialise_user_groups [of E s] initialise_other [of k E s]
      by (cases "k = ''tokens''"; cases "k = ''user_groups''") auto
  qed
  show "persisted (fst (activate E self s)) = cookies (fst (activate E self s))"
    by (rule activate_persisted)
qed

text \<open>
  A first visit on which the provider accepts the code; a rejected code for a client
  that was logged in; a first visit without code and without cookies.
\<close>

theorem activate_persists_witness:
  \<open>get_user_tokens
     (env_with_post (Inr (json_response 200
        (PDict [(''access_token'', PStr ''A''), (''id_token'', PStr ''h.e30.s'')]))))
     example_self '''' = Inr (PStr ''A'', PStr ''h.e30.s'')
 \<and> cookies (fst (activate
       (env_with_post (Inr (json_response 200
          (PDict [(''access_token'', PStr ''A''), (''id_token'', PStr ''h.e30.s'')]))))
       example_self empty_store)) ''tokens'' = Some ''{"access_token": "A", "id_token": "h.e30.s"}''
 \<and> cookies (fst (activate
       (env_with_post (Inr (json_response 200
          (PDict [(''access_token'', PStr ''A''), (''id_token'', PStr ''h.e30.s'')]))))
       example_self empty_store)) ''user_groups'' = Some ''[]''
 \<and> persisted (fst (activate
       (env_with_post (Inr (json_response 200
          (PDict [(''access_token'', PStr ''A''), (''id_token'', PStr ''h.e30.s'')]))))
       example_self empty_store)) ''tokens'' = Some ''{"access_token": "A", "id_token": "h.e30.s"}''
 \<and> get_user_tokens (env_with_post (Inr rejected)) example_self '''' = Inr (PStr '''', PStr '''')
 \<and> fst (activate (env_with_post (Inr rejected)) example_self logged_in_store) = logged_in_store
 \<and> \<not> store_has empty_store ''tokens'' \<and> \<not> store_has empty_store ''user_groups''
 \<and> query_params (env_with_post (Inr rejected)) ''code'' = None
 \<and> json_loads (env_with_post (Inr rejected)) (json_dumps (env_with_post (Inr rejected)) (PDict []))
     = Inr (PDict [])
 \<and> snd (activate (env_with_post (Inr rejected)) example_self empty_store) = Inr PNone
 \<and> cookies (fst (activate (env_with_post (Inr rejected)) example_self empty_store))
     = [''tokens'' \<mapsto> ''{}'', ''user_groups'' \<mapsto> ''[]'']
 \<and> persisted (fst (activate (env_with_post (Inr rejected)) example_self empty_store))
     = [''tokens'' \<mapsto> ''{}'', ''user_groups'' \<mapsto> ''[]'']\<close>
  using activate_persists [where E = "env_with_post (Inr (json_response 200
            (PDict [(''access_token'', PStr ''A''), (''id_token'', PStr ''h.e30.s'')])))"
          and self = example_self and s = empty_store and code = "''''"
          and a = "PStr ''A''" and i = "PStr ''h.e30.s''" and g = "[]"]
        activate_persists [where E = "env_with_post (Inr rejected)"
          and self = example_self and s = logged_in_store and code = "''''"
          and a = "PStr ''''" and i = "PStr ''''" and g = "[]"]
        activate_persists [where E = "env_with_post (Inr rejected)"
          and self = example_self and s = empty_store and code = "''''"
          and a = "PStr ''''" and i = "PStr ''''" and g = "[]"]
  by (simp add: get_user_tokens_both get_user_groups_examples initialise_empty_store
        initialise_logged_in_store empty_store_has empty_store_simps run_accepted run_rejected store_set_def store_save_def)

end
